theory Spec2Isabelle
  imports Complex_Main "HOL-Library.Sublist"
begin

section \<open>Training driver of OpenFold: weight swapping, resumption and start-up checks\<close>

text \<open>
  A shallow embedding of \<^verbatim>\<open>train_openfold.py\<close>: the class \<^verbatim>\<open>OpenFoldWrapper\<close>
  (the weights it owns, the cache used while validating with the averaged weights, the
  recorded learning-rate step), the function \<^verbatim>\<open>main\<close>, the helper
  \<^verbatim>\<open>load_jax_params_into_model\<close> and the checks of the script body.

  Tensors are values of an arbitrary type \<open>'v\<close>: nothing below computes with their
  contents, they are only copied, so equality on \<open>'v\<close> is bit-identity. Floating-point
  hyper-parameters (learning rate, epsilon, decay) are carried as rationals and only
  compared and copied.
\<close>

subsection \<open>Exceptions\<close>

datatype error =
    AssertionError string
  | ValueError string
  | NameError string
  | TypeError string
  | RuntimeError string
  | KeyError string

subsection \<open>Strings\<close>

text \<open>Python's \<^verbatim>\<open>sub in s\<close> on strings: \<open>sub\<close> occurs in \<open>s\<close> as a contiguous block.\<close>

fun str_contains :: "string \<Rightarrow> string \<Rightarrow> bool" where
  "str_contains sub [] = (sub = [])"
| "str_contains sub (c # cs) = (prefix sub (c # cs) \<or> str_contains sub cs)"

text \<open>\<^verbatim>\<open>s.split(sep)\<close> for a one-character separator, and \<^verbatim>\<open>sep.join(parts)\<close>.\<close>

fun str_split :: "char \<Rightarrow> string \<Rightarrow> string list" where
  "str_split sep [] = [[]]"
| "str_split sep (c # cs) =
     (if c = sep then [] # str_split sep cs
      else (case str_split sep cs of
              [] \<Rightarrow> [[c]]
            | p # ps \<Rightarrow> (c # p) # ps))"

fun str_join :: "string \<Rightarrow> string list \<Rightarrow> string" where
  "str_join sep [] = []"
| "str_join sep [p] = p"
| "str_join sep (p # q # ps) = p @ sep @ str_join sep (q # ps)"

subsection \<open>Tensors, references and state dictionaries\<close>

text \<open>
  \<^verbatim>\<open>model.state_dict()\<close> holds references to the model's weights, not copies (the
  comment in \<^verbatim>\<open>validation_step\<close> says so), and \<^verbatim>\<open>load_state_dict\<close> writes into the
  weights in place. Both facts matter for the swap, so tensors live in a store: a list of
  tensor values, a reference being an index into it. A state dictionary is an ordered
  dictionary from parameter names to references. Allocating a tensor appends a cell.
\<close>

type_synonym state_dict = "(string \<times> nat) list"

text \<open>\<^verbatim>\<open>clone_param = lambda t: t.detach().clone()\<close>: a new tensor with the same contents.\<close>

definition clone_param :: "nat \<Rightarrow> 'v list \<Rightarrow> nat \<times> 'v list" where
  "clone_param t store = (length store, store @ [store ! t])"

text \<open>
  \<^verbatim>\<open>tensor_tree_map(fn, tree)\<close> on a flat dictionary: \<^verbatim>\<open>fn\<close> is applied to every
  leaf, the keys are kept.
\<close>

fun tensor_tree_map ::
  "(nat \<Rightarrow> 'v list \<Rightarrow> nat \<times> 'v list) \<Rightarrow> state_dict \<Rightarrow> 'v list \<Rightarrow> state_dict \<times> 'v list" where
  "tensor_tree_map fn [] store = ([], store)"
| "tensor_tree_map fn ((k, t) # tree) store =
     (case fn t store of
        (t', store') \<Rightarrow>
          (case tensor_tree_map fn tree store' of
             (tree', store'') \<Rightarrow> ((k, t') # tree', store'')))"

text \<open>
  The write of one parameter: the own tensor \<open>t\<close> named \<open>k\<close> takes the contents of the
  tensor that \<open>sd\<close> holds under \<open>k\<close>.
\<close>

abbreviation (input) write_param :: "state_dict \<Rightarrow> string \<times> nat \<Rightarrow> 'v list \<Rightarrow> 'v list" where
  "write_param sd \<equiv>
     (\<lambda>(k, t) st. (case map_of sd k of None \<Rightarrow> st | Some src \<Rightarrow> st[t := st ! src]))"

text \<open>
  \<^verbatim>\<open>torch.nn.Module.load_state_dict(state_dict)\<close> with its default \<^verbatim>\<open>strict=True\<close>:
  an argument that is not a dictionary (here: \<^verbatim>\<open>None\<close>) is an error, so are missing or
  unexpected keys; otherwise every own parameter is overwritten in place with the
  contents of the tensor given under its name.
\<close>

definition load_state_dict :: "state_dict \<Rightarrow> state_dict option \<Rightarrow> 'v list \<Rightarrow> error + 'v list" where
  "load_state_dict own given store =
     (case given of
        None \<Rightarrow> Inl (TypeError ''load_state_dict: the state_dict is None'')
      | Some sd \<Rightarrow>
          if set (map fst sd) \<noteq> set (map fst own)
          then Inl (RuntimeError ''Error(s) in loading state_dict'')
          else Inr (fold (write_param sd) own store))"

subsection \<open>The wrapper\<close>

record 'v OpenFoldWrapper =
  tensors :: "'v list"
  model :: state_dict
  ema_params :: state_dict
  ema_decay :: rat
  template_enabled :: bool
  cached_weights :: "state_dict option"
  last_lr_step :: int

text \<open>
  \<^verbatim>\<open>__init__\<close>: the model and its averaged copy are built by the constructors of
  \<^verbatim>\<open>AlphaFold\<close> and \<^verbatim>\<open>ExponentialMovingAverage\<close> (given here), the cache is empty
  and no learning-rate step is recorded.
\<close>

definition OpenFoldWrapper_init ::
  "'v list \<Rightarrow> state_dict \<Rightarrow> state_dict \<Rightarrow> rat \<Rightarrow> bool \<Rightarrow> 'v OpenFoldWrapper" where
  "OpenFoldWrapper_init store model_sd ema_sd decay_cfg tmpl =
     \<lparr> tensors = store, model = model_sd, ema_params = ema_sd, ema_decay = decay_cfg,
       template_enabled = tmpl, cached_weights = None, last_lr_step = - 1 \<rparr>"

text \<open>The values a state dictionary refers to.\<close>

definition read_state_dict :: "state_dict \<Rightarrow> 'v list \<Rightarrow> (string \<times> 'v) list" where
  "read_state_dict sd store = map (\<lambda>(k, t). (k, store ! t)) sd"

text \<open>
  \<^verbatim>\<open>validation_step\<close>, lines 118 to 126: what it does to the weights. The forward pass,
  the loss and the logging that follow read the weights and do not write them. An
  exception ends the run, so the state it leaves behind is not kept.
\<close>

definition validation_step :: "'v OpenFoldWrapper \<Rightarrow> error + 'v OpenFoldWrapper" where
  "validation_step self =
     (case cached_weights self of
        None \<Rightarrow>
          (case tensor_tree_map clone_param (model self) (tensors self) of
             (cache, store) \<Rightarrow>
               (case load_state_dict (model self) (Some (ema_params self)) store of
                  Inl e \<Rightarrow> Inl e
                | Inr store' \<Rightarrow>
                    Inr (self\<lparr> tensors := store', cached_weights := Some cache \<rparr>)))
      | Some _ \<Rightarrow> Inr self)"

text \<open>\<^verbatim>\<open>validation_epoch_end\<close>, lines 140 to 143.\<close>

definition validation_epoch_end :: "'v OpenFoldWrapper \<Rightarrow> error + 'v OpenFoldWrapper" where
  "validation_epoch_end self =
     (case load_state_dict (model self) (cached_weights self) (tensors self) of
        Inl e \<Rightarrow> Inl e
      | Inr store' \<Rightarrow> Inr (self\<lparr> tensors := store', cached_weights := None \<rparr>))"

text \<open>\<^verbatim>\<open>resume_last_lr_step\<close>.\<close>

definition resume_last_lr_step :: "int \<Rightarrow> 'v OpenFoldWrapper \<Rightarrow> 'v OpenFoldWrapper" where
  "resume_last_lr_step lr_step self = self\<lparr> last_lr_step := lr_step \<rparr>"

subsection \<open>Validation metrics\<close>


subsection \<open>Optimizer and learning-rate scheduler\<close>

text \<open>
  A parameter group of the optimizer is a dictionary; the key \<^verbatim>\<open>initial_lr\<close> may be
  absent. \<^verbatim>\<open>torch.optim.Adam(params, lr, eps)\<close> on an iterator of parameters makes one
  group, with no \<^verbatim>\<open>initial_lr\<close>.
\<close>

record param_group =
  group_lr :: rat
  group_eps :: rat
  initial_lr :: "rat option"

definition Adam :: "rat \<Rightarrow> rat \<Rightarrow> param_group list" where
  "Adam learning_rate eps = [\<lparr> group_lr = learning_rate, group_eps = eps, initial_lr = None \<rparr>]"

text \<open>
  Modelled from the spec: the class \<^verbatim>\<open>AlphaFoldLRScheduler\<close>
  (\<^verbatim>\<open>openfold/utils/lr_schedulers.py\<close>) is not among the sources. The spec describes
  it as a pure function from the step to a multiplier, evaluated once per optimizer
  step, and resumable: a scheduler that resumes at \<open>N\<close> computes the multiplier of step
  \<open>N + 1\<close> at its next step, and the sentinel \<open>- 1\<close> starts at step \<open>0\<close>. So the
  scheduler holds the index of the last step taken (\<^verbatim>\<open>last_epoch\<close> in PyTorch, whose
  default is the sentinel), and a step advances it by one and yields the multiplier
  of the new index. The schedule itself is a parameter \<open>lr\<close> of the step.
\<close>

record lr_scheduler =
  last_epoch :: int

definition default_last_epoch :: int where
  "default_last_epoch = - 1"

definition AlphaFoldLRScheduler :: "param_group list \<Rightarrow> int \<Rightarrow> lr_scheduler" where
  "AlphaFoldLRScheduler optimizer last_ep = \<lparr> last_epoch = last_ep \<rparr>"

definition scheduler_step :: "(int \<Rightarrow> rat) \<Rightarrow> lr_scheduler \<Rightarrow> rat \<times> lr_scheduler" where
  "scheduler_step lr sched = (lr (last_epoch sched + 1), sched\<lparr> last_epoch := last_epoch sched + 1 \<rparr>)"

text \<open>The multipliers of \<open>n\<close> consecutive steps, and the scheduler after them.\<close>

fun scheduler_steps :: "(int \<Rightarrow> rat) \<Rightarrow> nat \<Rightarrow> lr_scheduler \<Rightarrow> rat list \<times> lr_scheduler" where
  "scheduler_steps lr 0 sched = ([], sched)"
| "scheduler_steps lr (Suc n) sched =
     (case scheduler_step lr sched of
        (m, sched') \<Rightarrow> (case scheduler_steps lr n sched' of (ms, sched'') \<Rightarrow> (m # ms, sched'')))"

text \<open>
  Modelled from the spec: a schedule of the warmup-then-decay shape the spec names
  (the constants of \<^verbatim>\<open>AlphaFoldLRScheduler\<close> are not among the sources): a linear
  warmup over \<open>warmup\<close> steps, a plateau at 1, and from \<open>start_decay\<close> on a decay by
  \<open>factor\<close> every \<open>every\<close> steps. It is used for concrete evaluations only.
\<close>

definition warmup_then_decay :: "int \<Rightarrow> int \<Rightarrow> int \<Rightarrow> rat \<Rightarrow> int \<Rightarrow> rat" where
  "warmup_then_decay warmup start_decay every factor step_no =
     (if step_no \<le> warmup then of_int step_no / of_int warmup
      else if step_no > start_decay then factor ^ nat ((step_no - start_decay) div every + 1)
      else 1)"

text \<open>
  \<^verbatim>\<open>configure_optimizers\<close>. The scheduler is built from the optimizer alone: the call
  gives no \<^verbatim>\<open>last_epoch\<close>, so the default is taken.
\<close>

record optimizers_config =
  optimizer :: "param_group list"
  scheduler :: lr_scheduler
  interval :: string
  scheduler_name :: string

definition configure_optimizers :: "'v OpenFoldWrapper \<Rightarrow> rat \<Rightarrow> rat \<Rightarrow> optimizers_config" where
  "configure_optimizers self learning_rate eps =
     (let opt = Adam learning_rate eps;
          opt = (if last_lr_step self \<noteq> - 1
                 then map (\<lambda>group. if initial_lr group = None
                                    then group\<lparr> initial_lr := Some learning_rate \<rparr>
                                    else group) opt
                 else opt);
          lr_sched = AlphaFoldLRScheduler opt default_last_epoch
      in \<lparr> optimizer = opt, scheduler = lr_sched, interval = ''step'',
           scheduler_name = ''AlphaFoldLRScheduler'' \<rparr>)"

subsection \<open>Checkpoint hooks\<close>

text \<open>The entry \<^verbatim>\<open>checkpoint["ema"]\<close>: the averaged parameters by name, and the decay.\<close>

record 'v ema_state_dict =
  sd_params :: "(string \<times> 'v) list"
  sd_decay :: rat

text \<open>
  \<^verbatim>\<open>on_load_checkpoint\<close>. \<^verbatim>\<open>ExponentialMovingAverage.load_state_dict\<close> is not among
  the sources; it is the parameter \<open>ema_load_state_dict\<close>, applied to the dictionary it
  is given and to the wrapper.
\<close>

definition on_load_checkpoint ::
  "('v ema_state_dict \<Rightarrow> 'v OpenFoldWrapper \<Rightarrow> 'r) \<Rightarrow> 'v ema_state_dict \<Rightarrow> 'v OpenFoldWrapper \<Rightarrow> 'r" where
  "on_load_checkpoint ema_load_state_dict ema self =
     (let ema = (if \<not> template_enabled self
                 then ema\<lparr> sd_params := filter (\<lambda>(k, v). \<not> str_contains ''template'' k) (sd_params ema) \<rparr>
                 else ema)
      in ema_load_state_dict ema self)"

subsection \<open>The environment of \<^verbatim>\<open>main\<close>\<close>

text \<open>
  A deserialised checkpoint file is a dictionary; its entries are integers (such as
  \<^verbatim>\<open>global_step\<close>) or other objects (tensors, nested dictionaries), which stay
  opaque.
\<close>

datatype 'v pyobj = PyInt int | PyObj 'v

text \<open>
  What an untyped parameter of \<^verbatim>\<open>load_jax_params_into_model\<close> can receive at its
  call site: a path, or the model (given by its state dictionary).
\<close>

datatype dyn = DynPath string | DynModule state_dict

text \<open>
  The file system, the library routines \<^verbatim>\<open>main\<close> calls and the configuration it
  builds the wrapper from. Every routine may raise. \<open>obj_int\<close> is \<^verbatim>\<open>int(x)\<close> on an
  opaque object; \<open>module_load_state_dict\<close> is \<^verbatim>\<open>load_state_dict\<close> of the wrapper
  (a \<^verbatim>\<open>torch\<close> module), which only writes tensors.
\<close>

record 'v env =
  os_path_isdir :: "string \<Rightarrow> bool"
  torch_load :: "string \<Rightarrow> error + (string \<times> 'v pyobj) list"
  get_global_step_from_zero_checkpoint :: "string \<Rightarrow> error + int"
  get_fp32_state_dict_from_zero_checkpoint :: "string \<Rightarrow> error + (string \<times> 'v pyobj) list"
  obj_int :: "'v \<Rightarrow> error + int"
  get_model_basename :: "dyn \<Rightarrow> error + string"
  import_jax_weights :: "dyn \<Rightarrow> dyn \<Rightarrow> string \<Rightarrow> 'v list \<Rightarrow> error + 'v list"
  module_load_state_dict :: "(string \<times> 'v pyobj) list \<Rightarrow> 'v OpenFoldWrapper \<Rightarrow> error + 'v list"
  init_tensors :: "'v list"
  init_model :: state_dict
  init_ema :: state_dict
  config_ema_decay :: rat
  config_template_enabled :: bool

text \<open>
  The command-line arguments the modelled code reads. \<^verbatim>\<open>precision\<close> is an integer
  or a string (the trainer accepts both).
\<close>

datatype py_precision = PrecisionInt int | PrecisionStr string

record args =
  seed :: "int option"
  gpus :: "int option"
  num_nodes :: "int option"
  precision :: py_precision
  deepspeed_config_path :: "string option"
  jax_param_path :: "string option"
  resume_from_ckpt :: "string option"
  resume_model_weights_only :: bool

text \<open>
  \<^verbatim>\<open>str(args.precision) == "16"\<close>: the decimal text of an integer is \<^verbatim>\<open>16\<close> exactly
  when the integer is 16.
\<close>

definition precision_is_16 :: "py_precision \<Rightarrow> bool" where
  "precision_is_16 p = (case p of PrecisionInt i \<Rightarrow> i = 16 | PrecisionStr s \<Rightarrow> s = ''16'')"

text \<open>\<^verbatim>\<open>int(x)\<close>, and \<^verbatim>\<open>sd[key]\<close> on a dictionary.\<close>

definition py_int :: "'v env \<Rightarrow> 'v pyobj \<Rightarrow> error + int" where
  "py_int env x = (case x of PyInt i \<Rightarrow> Inr i | PyObj v \<Rightarrow> obj_int env v)"

definition dict_get :: "(string \<times> 'a) list \<Rightarrow> string \<Rightarrow> error + 'a" where
  "dict_get sd key = (case map_of sd key of None \<Rightarrow> Inl (KeyError key) | Some x \<Rightarrow> Inr x)"

subsection \<open>Loading JAX parameters\<close>

text \<open>
  The names bound where the body of \<^verbatim>\<open>load_jax_params_into_model\<close> runs: its
  parameters and local variables, and the names bound at module level (imports,
  definitions, and the variables of the script body). No builtin is called
  \<^verbatim>\<open>path\<close>, the only name looked up below.
\<close>

definition load_jax_locals :: "string list" where
  "load_jax_locals = [''param_path'', ''model'', ''model_basename'', ''model_version'']"

definition module_globals :: "string list" where
  "module_globals =
     [''argparse'', ''logging'', ''os'', ''random'', ''sys'', ''time'', ''np'', ''pl'',
      ''LearningRateMonitor'', ''ModelCheckpoint'', ''WandbLogger'', ''DeepSpeedPlugin'',
      ''DDPPlugin'', ''SLURMEnvironment'', ''torch'', ''model_config'',
      ''OpenFoldDataModule'', ''DummyDataLoader'', ''AlphaFold'', ''script_preset_'',
      ''residue_constants'', ''remove_arguments'', ''EarlyStoppingVerbose'',
      ''ExponentialMovingAverage'', ''import_jax_weights_'', ''AlphaFoldLoss'', ''lddt_ca'',
      ''AlphaFoldLRScheduler'', ''get_model_basename'', ''seed_everything'', ''superimpose'',
      ''tensor_tree_map'', ''drmsd'', ''gdt_ts'', ''gdt_ha'',
      ''get_fp32_state_dict_from_zero_checkpoint'', ''get_global_step_from_zero_checkpoint'',
      ''PerformanceLoggingCallback'', ''scn_losses'', ''OpenFoldWrapper'', ''main'',
      ''bool_type'', ''load_jax_params_into_model'', ''parser'', ''args'']"

definition name_bound :: "string \<Rightarrow> bool" where
  "name_bound n = (n \<in> set load_jax_locals \<or> n \<in> set module_globals)"

text \<open>
  \<^verbatim>\<open>load_jax_params_into_model(param_path, model)\<close>. The message of the last
  \<^verbatim>\<open>logging.info\<close> is an f-string that reads the name \<^verbatim>\<open>path\<close>.
\<close>

definition load_jax_params_into_model ::
  "'v env \<Rightarrow> dyn \<Rightarrow> dyn \<Rightarrow> 'v list \<Rightarrow> error + dyn \<times> 'v list" where
  "load_jax_params_into_model env param_path model_arg store =
     (case get_model_basename env param_path of
        Inl e \<Rightarrow> Inl e
      | Inr model_basename \<Rightarrow>
          (let model_version = str_join ''_'' (drop 1 (str_split CHR ''_'' model_basename)) in
           case import_jax_weights env model_arg param_path model_version store of
             Inl e \<Rightarrow> Inl e
           | Inr store' \<Rightarrow>
               if name_bound ''path'' then Inr (model_arg, store')
               else Inl (NameError ''path'')))"

subsection \<open>\<^verbatim>\<open>main\<close> and the script body\<close>

text \<open>Lines 372 to 376: the global step of a checkpoint directory or file.\<close>

definition recover_global_step :: "'v env \<Rightarrow> string \<Rightarrow> error + int" where
  "recover_global_step env path =
     (if os_path_isdir env path then get_global_step_from_zero_checkpoint env path
      else (case torch_load env path of
              Inl e \<Rightarrow> Inl e
            | Inr sd \<Rightarrow> (case dict_get sd ''global_step'' of
                           Inl e \<Rightarrow> Inl e
                         | Inr x \<Rightarrow> py_int env x)))"

text \<open>Lines 380 to 387: the weights of a checkpoint, renamed and loaded.\<close>

definition load_model_weights :: "'v env \<Rightarrow> string \<Rightarrow> 'v OpenFoldWrapper \<Rightarrow> error + 'v OpenFoldWrapper" where
  "load_model_weights env path model_module =
     (case (if os_path_isdir env path then get_fp32_state_dict_from_zero_checkpoint env path
            else torch_load env path) of
        Inl e \<Rightarrow> Inl e
      | Inr sd \<Rightarrow>
          (let sd = map (\<lambda>(k, v). (''model.'' @ k, v)) sd in
           case module_load_state_dict env sd model_module of
             Inl e \<Rightarrow> Inl e
           | Inr store \<Rightarrow> Inr (model_module\<lparr> tensors := store \<rparr>)))"

text \<open>
  What \<^verbatim>\<open>main\<close> hands to \<^verbatim>\<open>trainer.fit\<close>: the wrapper and \<^verbatim>\<open>ckpt_path\<close>.
\<close>

record 'v fit_call =
  fit_model_module :: "'v OpenFoldWrapper"
  fit_ckpt_path :: "string option"

text \<open>
  Lines 367 to 378. The call of \<^verbatim>\<open>load_jax_params_into_model\<close> gives the model
  first and the path second. Assigning a string to \<^verbatim>\<open>model_module.model\<close>, a
  registered child module, is refused by \<^verbatim>\<open>torch\<close>. An optional string is true when it
  is neither \<^verbatim>\<open>None\<close> nor empty.
\<close>

abbreviation (input) new_module :: "'v env \<Rightarrow> 'v OpenFoldWrapper" where
  "new_module env \<equiv>
     OpenFoldWrapper_init (init_tensors env) (init_model env) (init_ema env)
       (config_ema_decay env) (config_template_enabled env)"

definition main_init_module :: "'v env \<Rightarrow> args \<Rightarrow> error + 'v OpenFoldWrapper" where
  "main_init_module env a =
     (let model_module = new_module env in
      case jax_param_path a of
        Some jax_path \<Rightarrow>
          (case load_jax_params_into_model env (DynModule (model model_module)) (DynPath jax_path)
                  (tensors model_module) of
             Inl e \<Rightarrow> Inl e
           | Inr (DynModule sd, store) \<Rightarrow> Inr (model_module\<lparr> tensors := store, model := sd \<rparr>)
           | Inr (DynPath p, store) \<Rightarrow> Inl (TypeError ''cannot assign str as child module model''))
      | None \<Rightarrow>
          (case resume_from_ckpt a of
             Some path \<Rightarrow>
               if path \<noteq> [] \<and> \<not> resume_model_weights_only a then
                 (case recover_global_step env path of
                    Inl e \<Rightarrow> Inl e
                  | Inr last_global_step \<Rightarrow> Inr (resume_last_lr_step last_global_step model_module))
               else Inr model_module
           | None \<Rightarrow> Inr model_module))"

text \<open>
  \<^verbatim>\<open>main\<close>. The scripting of modules, the data module, the callbacks, the loggers and
  the choice of the strategy (lines 390 to 474) neither read nor write what is modelled
  here and are left out; the result is the call of \<^verbatim>\<open>trainer.fit\<close>.
\<close>

definition main :: "'v env \<Rightarrow> args \<Rightarrow> error + 'v fit_call" where
  "main env a =
     (case main_init_module env a of
        Inl e \<Rightarrow> Inl e
      | Inr model_module \<Rightarrow>
          (case (case resume_from_ckpt a of
                   Some path \<Rightarrow>
                     if path \<noteq> [] \<and> resume_model_weights_only a
                     then load_model_weights env path model_module
                     else Inr model_module
                 | None \<Rightarrow> Inr model_module) of
             Inl e \<Rightarrow> Inl e
           | Inr model_module \<Rightarrow>
               Inr \<lparr> fit_model_module = model_module,
                     fit_ckpt_path = (if resume_model_weights_only a then None
                                      else resume_from_ckpt a) \<rparr>))"

text \<open>
  The script body after the arguments are parsed (lines 728 to 743). Setting
  \<^verbatim>\<open>reload_dataloaders_every_n_epochs\<close> and the logging level does not concern
  \<^verbatim>\<open>main\<close> as modelled.
\<close>

definition seed_missing :: "args \<Rightarrow> bool" where
  "seed_missing a =
     (seed a = None \<and>
      ((case gpus a of None \<Rightarrow> False | Some g \<Rightarrow> g > 1) \<or>
       (case num_nodes a of None \<Rightarrow> False | Some n \<Rightarrow> n > 1)))"

definition script_body :: "'v env \<Rightarrow> args \<Rightarrow> error + 'v fit_call" where
  "script_body env a =
     (if seed_missing a
      then Inl (ValueError ''For distributed training, --seed must be specified'')
      else if precision_is_16 (precision a) \<and> deepspeed_config_path a \<noteq> None
      then Inl (ValueError ''DeepSpeed and FP16 training are not compatible'')
      else main env a)"

subsection \<open>A small wrapper for concrete evaluations\<close>

text \<open>
  Two parameters \<^verbatim>\<open>w\<close> and \<^verbatim>\<open>b\<close> with the live values 10 and 20 (cells 0 and 1) and
  the averaged values 1 and 2 (cells 2 and 3); \<open>example_swapped\<close> is the same wrapper
  while the averaged weights are swapped in, the live values saved in cells 4 and 5.
\<close>

definition example_wrapper :: "int OpenFoldWrapper" where
  "example_wrapper =
     OpenFoldWrapper_init [10, 20, 1, 2] [(''w'', 0), (''b'', 1)] [(''w'', 2), (''b'', 3)]
       (999 / 1000) True"

definition example_swapped :: "int OpenFoldWrapper" where
  "example_swapped =
     example_wrapper\<lparr> tensors := [1, 2, 1, 2, 10, 20],
                      cached_weights := Some [(''w'', 4), (''b'', 5)] \<rparr>"

text \<open>
  A schedule with a warmup of 1000 steps, and an averaged-weights entry of a checkpoint
  of a model trained with templates.
\<close>

definition example_schedule :: "int \<Rightarrow> rat" where
  "example_schedule = warmup_then_decay 1000 50000 50000 (95 / 100)"

definition example_ema :: "int ema_state_dict" where
  "example_ema =
     \<lparr> sd_params = [(''evoformer.w'', 1), (''template_embedder.w'', 2), (''heads.b'', 3),
                     (''extra.template_proj'', 4)],
       sd_decay = 999 / 1000 \<rparr>"

text \<open>
  An environment with a sharded checkpoint directory \<^verbatim>\<open>ckpt_dir\<close> (global step 800),
  a checkpoint file \<^verbatim>\<open>last.ckpt\<close> (global step 1200) and a file of weights
  \<^verbatim>\<open>weights.pt\<close>; the wrapper it builds is \<open>example_wrapper\<close>. The arguments are
  those of a single-device run that resumes from nothing.
\<close>

definition example_env :: "int env" where
  "example_env =
     \<lparr> os_path_isdir = (\<lambda>p. p = ''ckpt_dir''),
       torch_load = (\<lambda>p. if p = ''last.ckpt''
                           then Inr [(''global_step'', PyInt 1200), (''state_dict'', PyObj 0)]
                           else if p = ''weights.pt'' then Inr [(''w'', PyObj 7), (''b'', PyObj 8)]
                           else Inl (RuntimeError ''no such file'')),
       get_global_step_from_zero_checkpoint = (\<lambda>p. Inr 800),
       get_fp32_state_dict_from_zero_checkpoint = (\<lambda>p. Inr [(''w'', PyObj 5), (''b'', PyObj 6)]),
       obj_int = (\<lambda>v. Inl (TypeError ''int()'')),
       get_model_basename = (\<lambda>d. case d of DynPath p \<Rightarrow> Inr ''params_model_1''
                                   | DynModule m \<Rightarrow> Inl (TypeError ''expected str'')),
       import_jax_weights = (\<lambda>m p version store. Inr store),
       module_load_state_dict =
         (\<lambda>sd w. if map fst sd = map (\<lambda>(k, t). ''model.'' @ k) (model w)
                  then Inr (fold (\<lambda>(k, t) st. case map_of sd (''model.'' @ k) of
                                                 Some (PyObj v) \<Rightarrow> st[t := v]
                                               | _ \<Rightarrow> st) (model w) (tensors w))
                  else Inl (RuntimeError ''Error(s) in loading state_dict'')),
       init_tensors = [10, 20, 1, 2],
       init_model = [(''w'', 0), (''b'', 1)],
       init_ema = [(''w'', 2), (''b'', 3)],
       config_ema_decay = 999 / 1000,
       config_template_enabled = True \<rparr>"

definition example_args :: args where
  "example_args =
     \<lparr> seed = Some 42, gpus = Some 1, num_nodes = Some 1, precision = PrecisionInt 32,
       deepspeed_config_path = None, jax_param_path = None, resume_from_ckpt = None,
       resume_model_weights_only = False \<rparr>"

section \<open>Properties\<close>

subsection \<open>Copying and writing tensors\<close>

text \<open>Cloning a state dictionary appends one cell per entry, holding the entry's value.\<close>

lemma tensor_tree_map_clone:
  "\<forall>(k, t) \<in> set sd. t < length store \<Longrightarrow>
   tensor_tree_map clone_param sd store =
     (zip (map fst sd) [length store ..< length store + length sd],
      store @ map (\<lambda>(k, t). store ! t) sd)"
proof (induction sd arbitrary: store)
  case Nil
  then show ?case by simp
next
  case (Cons p sd)
  obtain k t where p: "p = (k, t)" by (cases p)
  from Cons.prems p have t: "t < length store" by simp
  have rest: "\<forall>(k, u) \<in> set sd. u < length (store @ [store ! t])"
    using Cons.prems by auto
  have same: "map (\<lambda>(k, u). (store @ [store ! t]) ! u) sd = map (\<lambda>(k, u). store ! u) sd"
    using Cons.prems by (auto simp: nth_append)
  have up: "[length store ..< length store + Suc (length sd)] =
            length store # [Suc (length store) ..< Suc (length store) + length sd]"
    using upt_conv_Cons[of "length store" "length store + Suc (length sd)"] by simp
  show ?case
    using Cons.IH[OF rest] same up by (simp add: p clone_param_def)
qed

lemma length_fold_write [simp]:
  "length (fold (write_param sd) own st) = length st"
  by (induction own arbitrary: st) (auto split: option.splits)

lemma fold_write_other:
  "i \<notin> snd ` set own \<Longrightarrow> fold (write_param sd) own st ! i = st ! i"
proof (induction own arbitrary: st)
  case Nil
  then show ?case by simp
next
  case (Cons p own)
  obtain k t where p: "p = (k, t)" by (cases p)
  from Cons.prems p have "i \<noteq> t" "i \<notin> snd ` set own" by auto
  then show ?case using Cons.IH[of "write_param sd p st"]
    by (simp add: p split: option.splits)
qed

text \<open>
  Loading from copies that lie above every own cell: each own cell ends with the value
  its copy holds.
\<close>

lemma fold_write_restore:
  assumes "\<forall>(k, t) \<in> set own. t < L"
    and "L \<le> length st"
    and "\<forall>(k, t) \<in> set own. \<exists>src. map_of c k = Some src \<and> L \<le> src \<and> st ! src = orig ! t"
    and "(k, t) \<in> set own"
  shows "fold (write_param c) own st ! t = orig ! t"
  using assms
proof (induction own arbitrary: st k)
  case Nil
  then show ?case by simp
next
  case (Cons p own)
  obtain k' t' where p: "p = (k', t')" by (cases p)
  from Cons.prems(3) p obtain src where
    src: "map_of c k' = Some src" "L \<le> src" "st ! src = orig ! t'"
    by auto
  from Cons.prems(1) p have t': "t' < L" by simp
  let ?st = "st[t' := orig ! t']"
  have step: "write_param c p st = ?st" using src by (simp add: p)
  have pre1: "\<forall>(k, t) \<in> set own. t < L" using Cons.prems(1) by simp
  have pre2: "L \<le> length ?st" using Cons.prems(2) by simp
  have pre3: "\<forall>(k, t) \<in> set own. \<exists>src. map_of c k = Some src \<and> L \<le> src \<and> ?st ! src = orig ! t"
  proof (clarify)
    fix a b assume ab: "(a, b) \<in> set own"
    with Cons.prems(3) obtain s where s: "map_of c a = Some s" "L \<le> s" "st ! s = orig ! b"
      by fastforce
    with t' have "?st ! s = orig ! b" by simp
    with s show "\<exists>src. map_of c a = Some src \<and> L \<le> src \<and> ?st ! src = orig ! b" by blast
  qed
  show ?case
  proof (cases "(k, t) \<in> set own")
    case True
    from Cons.IH[OF pre1 pre2 pre3 True] show ?thesis by (simp add: step)
  next
    case False
    with Cons.prems(4) p have kt: "k = k'" "t = t'" by auto
    show ?thesis
    proof (cases "t \<in> snd ` set own")
      case True
      then obtain k2 where "(k2, t) \<in> set own" by force
      from Cons.IH[OF pre1 pre2 pre3 this] show ?thesis by (simp add: step)
    next
      case False
      have "t' < length st" using t' Cons.prems(2) by simp
      then show ?thesis using fold_write_other[OF False, of c ?st] kt
        by (simp add: step)
    qed
  qed
qed

lemma map_of_cache:
  assumes "distinct (map fst sd)" and "(k, t) \<in> set sd"
  shows "\<exists>src. map_of (zip (map fst sd) [length store ..< length store + length sd]) k = Some src
           \<and> length store \<le> src
           \<and> (store @ map (\<lambda>(k, t). store ! t) sd) ! src = store ! t"
proof -
  from assms(2) obtain i where i: "i < length sd" "sd ! i = (k, t)"
    by (auto simp: in_set_conv_nth)
  let ?ks = "map fst sd" and ?ns = "[length store ..< length store + length sd]"
  have "map_of (zip ?ks ?ns) (?ks ! i) = Some (?ns ! i)"
    using assms(1) i(1) by (intro map_of_zip_nth) simp_all
  then have "map_of (zip ?ks ?ns) k = Some (length store + i)"
    using i by simp
  moreover have "(store @ map (\<lambda>(k, t). store ! t) sd) ! (length store + i) = store ! t"
    using i by (simp add: nth_append)
  ultimately show ?thesis by auto
qed

subsection \<open>The swap protocol\<close>

lemma validation_step_swapped:
  "cached_weights self = Some c \<Longrightarrow> validation_step self = Inr self"
  by (simp add: validation_step_def)

lemma validation_epoch_end_live:
  "cached_weights self = None \<Longrightarrow>
     validation_epoch_end self = Inl (TypeError ''load_state_dict: the state_dict is None'')"
  by (simp add: validation_epoch_end_def load_state_dict_def)

lemma validation_step_example: "validation_step example_wrapper = Inr example_swapped"
  by (simp add: validation_step_def example_wrapper_def example_swapped_def
      OpenFoldWrapper_init_def clone_param_def load_state_dict_def)

text \<open>
  C2, as the spec states it, fails: a second \<^verbatim>\<open>validation_step\<close> with no
  \<^verbatim>\<open>validation_epoch_end\<close> in between (a swap-in in the state Swapped) raises
  nothing. It returns and leaves the wrapper as it is.
\<close>

theorem second_swap_in_is_silent:
  "validation_step example_wrapper = Inr example_swapped \<and>
   cached_weights example_swapped \<noteq> None \<and>
   validation_step example_swapped = Inr example_swapped"
proof -
  have held: "cached_weights example_swapped = Some [(''w'', 4), (''b'', 5)]"
    by (simp add: example_swapped_def)
  then have "validation_step example_swapped = Inr example_swapped"
    by (rule validation_step_swapped)
  with held show ?thesis by (simp add: validation_step_example)
qed

text \<open>
  C2, amended. \<^verbatim>\<open>validation_step\<close> runs once per validation batch and swaps the
  averaged weights in only when no cache is held: in the state Swapped it changes
  neither weights nor cache and raises nothing. \<^verbatim>\<open>validation_epoch_end\<close> in the state
  Live does not return: \<^verbatim>\<open>load_state_dict\<close> is called on \<^verbatim>\<open>None\<close> and raises.
\<close>

theorem swap_guard:
  "(cached_weights self \<noteq> None \<longrightarrow> validation_step self = Inr self) \<and>
   (cached_weights self = None \<longrightarrow> (\<exists>e. validation_epoch_end self = Inl e))"
  by (auto simp: validation_step_swapped validation_epoch_end_live)

theorem swap_guard_witness:
  "validation_step example_swapped = Inr example_swapped \<and>
   (\<exists>e. validation_epoch_end example_wrapper = Inl e)"
proof -
  have swapped: "cached_weights example_swapped \<noteq> None"
    by (simp add: example_swapped_def)
  have live: "cached_weights example_wrapper = None"
    by (simp add: example_wrapper_def OpenFoldWrapper_init_def)
  from swap_guard[of example_swapped] swapped
  have "validation_step example_swapped = Inr example_swapped" by blast
  moreover from swap_guard[of example_wrapper] live
  have "\<exists>e. validation_epoch_end example_wrapper = Inl e" by blast
  ultimately show ?thesis by blast
qed

text \<open>
  C3. From the state Live, with the references of the model valid, its names distinct
  (it is a dictionary) and the averaged parameters under the same names (otherwise the
  strict load refuses them), \<^verbatim>\<open>validation_step\<close> followed by
  \<^verbatim>\<open>validation_epoch_end\<close> succeeds, holds a cache in between and none afterwards,
  and leaves every live parameter with the value it had before; every tensor that
  existed before is unchanged. The cache is made of new cells, which the load of the
  averaged weights does not write.
\<close>

theorem swap_in_swap_out_restores:
  assumes live: "cached_weights self = None"
    and refs: "\<forall>(k, t) \<in> set (model self). t < length (tensors self)"
    and keys: "distinct (map fst (model self))"
    and ema: "set (map fst (ema_params self)) = set (map fst (model self))"
  shows "\<exists>swapped restored.
           validation_step self = Inr swapped \<and> cached_weights swapped \<noteq> None \<and>
           validation_epoch_end swapped = Inr restored \<and> cached_weights restored = None \<and>
           model restored = model self \<and>
           read_state_dict (model restored) (tensors restored) =
             read_state_dict (model self) (tensors self) \<and>
           take (length (tensors self)) (tensors restored) = tensors self"
proof -
  let ?m = "model self" and ?h = "tensors self"
  let ?cache = "zip (map fst ?m) [length ?h ..< length ?h + length ?m]"
  let ?h1 = "?h @ map (\<lambda>(k, t). ?h ! t) ?m"
  let ?h2 = "fold (write_param (ema_params self)) ?m ?h1"
  let ?h3 = "fold (write_param ?cache) ?m ?h2"
  let ?swapped = "self\<lparr> tensors := ?h2, cached_weights := Some ?cache \<rparr>"
  let ?restored = "?swapped\<lparr> tensors := ?h3, cached_weights := None \<rparr>"
  have clone: "tensor_tree_map clone_param ?m ?h = (?cache, ?h1)"
    using refs by (rule tensor_tree_map_clone)
  have step_in: "validation_step self = Inr ?swapped"
    using ema by (simp add: validation_step_def live clone load_state_dict_def)
  have cache_keys: "map fst ?cache = map fst ?m" by simp
  have step_out: "validation_epoch_end ?swapped = Inr ?restored"
    by (simp add: validation_epoch_end_def load_state_dict_def cache_keys del: map_fst_zip)
  have high: "?h2 ! i = ?h1 ! i" if "length ?h \<le> i" for i
  proof -
    have "i \<notin> snd ` set ?m" using refs that by fastforce
    then show ?thesis by (rule fold_write_other)
  qed
  have saved: "\<forall>(k, t) \<in> set ?m. \<exists>src. map_of ?cache k = Some src \<and> length ?h \<le> src \<and>
                 ?h2 ! src = ?h ! t"
  proof clarify
    fix k t assume "(k, t) \<in> set ?m"
    from map_of_cache[OF keys this, of ?h] obtain src where
      "map_of ?cache k = Some src" "length ?h \<le> src" "?h1 ! src = ?h ! t" by blast
    with high[of src]
    show "\<exists>src. map_of ?cache k = Some src \<and> length ?h \<le> src \<and> ?h2 ! src = ?h ! t"
      by auto
  qed
  have undone: "?h3 ! t = ?h ! t" if "(k, t) \<in> set ?m" for k t
    by (rule fold_write_restore[OF refs _ saved that]) simp
  have same_values: "read_state_dict ?m ?h3 = read_state_dict ?m ?h"
    using undone by (auto simp: read_state_dict_def)
  have cell: "?h3 ! i = ?h ! i" if i: "i < length ?h" for i
  proof (cases "i \<in> snd ` set ?m")
    case True
    then obtain k where "(k, i) \<in> set ?m" by force
    then show ?thesis by (rule undone)
  next
    case False
    then have "?h3 ! i = ?h2 ! i" by (rule fold_write_other)
    also have "\<dots> = ?h1 ! i" using False by (rule fold_write_other)
    also have "\<dots> = ?h ! i" using i by (simp add: nth_append)
    finally show ?thesis .
  qed
  have old: "take (length ?h) ?h3 = ?h"
    by (rule nth_equalityI) (simp_all add: cell)
  show ?thesis
    using step_in step_out same_values old
    by (intro exI[of _ ?swapped] exI[of _ ?restored]) simp
qed

theorem swap_in_swap_out_restores_witness:
  "\<exists>swapped restored.
     validation_step example_wrapper = Inr swapped \<and> cached_weights swapped \<noteq> None \<and>
     validation_epoch_end swapped = Inr restored \<and> cached_weights restored = None \<and>
     model restored = model example_wrapper \<and>
     read_state_dict (model restored) (tensors restored) =
       read_state_dict (model example_wrapper) (tensors example_wrapper) \<and>
     take (length (tensors example_wrapper)) (tensors restored) = tensors example_wrapper"
  by (rule swap_in_swap_out_restores)
     (simp_all add: example_wrapper_def OpenFoldWrapper_init_def)

subsection \<open>The all-atom metrics\<close>



subsection \<open>The learning-rate schedule after a resume\<close>

lemma configure_optimizers_scheduler:
  "scheduler (configure_optimizers self learning_rate eps) = \<lparr> last_epoch = - 1 \<rparr>"
  by (simp add: configure_optimizers_def Let_def AlphaFoldLRScheduler_def default_last_epoch_def)

text \<open>
  Whatever step was recorded, the scheduler built is the same: the recorded step only
  decides whether the baseline \<^verbatim>\<open>initial_lr\<close> is written.
\<close>

lemma configure_optimizers_scheduler_independent:
  "scheduler (configure_optimizers (resume_last_lr_step n self) learning_rate eps) =
   scheduler (configure_optimizers (resume_last_lr_step m self) learning_rate eps)"
  by (simp add: configure_optimizers_scheduler)

text \<open>After a resume the baseline of the parameter group is the learning rate.\<close>

lemma configure_optimizers_initial_lr:
  "last_lr_step self \<noteq> - 1 \<Longrightarrow>
   map initial_lr (optimizer (configure_optimizers self learning_rate eps)) = [Some learning_rate]"
  by (simp add: configure_optimizers_def Let_def Adam_def)

text \<open>After \<open>n\<close> steps the scheduler has advanced by \<open>n\<close>, and the last multiplier is that
  of the step reached.\<close>

lemma scheduler_steps_last:
  "last_epoch (snd (scheduler_steps lr n sched)) = last_epoch sched + int n \<and>
   (0 < n \<longrightarrow> last (fst (scheduler_steps lr n sched)) = lr (last_epoch sched + int n))"
proof (induction n arbitrary: sched)
  case 0
  then show ?case by simp
next
  case (Suc n)
  let ?s = "sched\<lparr> last_epoch := last_epoch sched + 1 \<rparr>"
  from Suc.IH[of ?s] show ?case
    by (cases n) (auto simp: scheduler_step_def ac_simps split: prod.splits)
qed

text \<open>A run stepped from nothing through the steps 0 to \<open>n + 1\<close> ends with the multiplier
  of step \<open>n + 1\<close>.\<close>

lemma uninterrupted_multiplier:
  "0 \<le> n \<Longrightarrow>
   last (fst (scheduler_steps lr (nat n + 2) (AlphaFoldLRScheduler opt default_last_epoch)))
     = lr (n + 1)"
proof -
  assume n: "0 \<le> n"
  let ?s = "AlphaFoldLRScheduler opt default_last_epoch"
  have pos: "0 < nat n + 2" by simp
  have "last (fst (scheduler_steps lr (nat n + 2) ?s)) = lr (last_epoch ?s + int (nat n + 2))"
    using scheduler_steps_last[of lr "nat n + 2" ?s] pos by blast
  moreover have "last_epoch ?s + int (nat n + 2) = n + 1"
    using n by (simp add: AlphaFoldLRScheduler_def default_last_epoch_def)
  ultimately show ?thesis by (simp only:)
qed

text \<open>The step taken first after \<^verbatim>\<open>configure_optimizers\<close> is step 0, whatever was recorded.\<close>

lemma first_step_after_configure:
  "fst (scheduler_step lr (scheduler (configure_optimizers (resume_last_lr_step n self)
                                        learning_rate eps))) = lr 0"
  by (simp add: configure_optimizers_scheduler scheduler_step_def)

text \<open>
  C1 does not hold of the code. After \<^verbatim>\<open>resume_last_lr_step(5)\<close> and
  \<^verbatim>\<open>configure_optimizers\<close> with its default arguments, the baseline
  \<^verbatim>\<open>initial_lr\<close> of the parameter group is the learning rate, as claimed; but the
  scheduler was built without the recorded step, so its next two steps yield the
  multipliers of the steps 0 and 1 (here 0 and 1/1000), where a run stepped
  continuously from nothing yields, at step 6, the multiplier 6/1000.
\<close>

theorem resume_restarts_schedule:
  "map initial_lr (optimizer (configure_optimizers (resume_last_lr_step 5 example_wrapper)
                                (1 / 1000) (1 / 100000)))
     = [Some (1 / 1000)] \<and>
   fst (scheduler_steps example_schedule 2
          (scheduler (configure_optimizers (resume_last_lr_step 5 example_wrapper)
                        (1 / 1000) (1 / 100000))))
     = [0, 1 / 1000] \<and>
   last (fst (scheduler_steps example_schedule 7
          (scheduler (configure_optimizers example_wrapper (1 / 1000) (1 / 100000)))))
     = 6 / 1000"
  by (simp add: configure_optimizers_def Let_def Adam_def AlphaFoldLRScheduler_def
      default_last_epoch_def resume_last_lr_step_def example_wrapper_def OpenFoldWrapper_init_def
      scheduler_step_def eval_nat_numeral example_schedule_def warmup_then_decay_def)

subsection \<open>Loading the averaged weights from a checkpoint\<close>

lemma str_contains_sublist: "str_contains sub s = sublist sub s"
  by (induction s) (auto simp: sublist_Cons_right)

text \<open>
  C5. \<^verbatim>\<open>on_load_checkpoint\<close> hands to the loader of the averaged weights a dictionary
  with the decay of the checkpoint and, when templates are enabled, the parameters of
  the checkpoint unchanged; when templates are disabled, exactly the entries whose name
  does not contain \<^verbatim>\<open>template\<close>, in their order and with their values.
\<close>

theorem on_load_checkpoint_filters:
  "\<exists>loaded. on_load_checkpoint ema_load_state_dict ema self = ema_load_state_dict loaded self \<and>
     sd_decay loaded = sd_decay ema \<and>
     (if template_enabled self then loaded = ema
      else subseq (sd_params loaded) (sd_params ema) \<and>
           (\<forall>k v. (k, v) \<in> set (sd_params loaded) \<longleftrightarrow>
                    (k, v) \<in> set (sd_params ema) \<and> \<not> sublist ''template'' k))"
  by (auto simp: on_load_checkpoint_def str_contains_sublist)

theorem on_load_checkpoint_filters_witness:
  "(\<exists>loaded. on_load_checkpoint Pair example_ema (example_wrapper\<lparr> template_enabled := False \<rparr>)
                = (loaded, example_wrapper\<lparr> template_enabled := False \<rparr>) \<and>
              (''evoformer.w'', 1) \<in> set (sd_params loaded) \<and>
              (''heads.b'', 3) \<in> set (sd_params loaded) \<and>
              (''template_embedder.w'', 2) \<notin> set (sd_params loaded) \<and>
              (''extra.template_proj'', 4) \<notin> set (sd_params loaded)) \<and>
   on_load_checkpoint Pair example_ema example_wrapper = (example_ema, example_wrapper)"
proof -
  let ?off = "example_wrapper\<lparr> template_enabled := False \<rparr>"
  have off: "\<not> template_enabled ?off" by simp
  have on: "template_enabled example_wrapper"
    by (simp add: example_wrapper_def OpenFoldWrapper_init_def)
  from on_load_checkpoint_filters[of Pair example_ema ?off] off
  obtain loaded where l: "on_load_checkpoint Pair example_ema ?off = (loaded, ?off)"
    and iff: "\<And>k v. (k, v) \<in> set (sd_params loaded) \<longleftrightarrow>
                      (k, v) \<in> set (sd_params example_ema) \<and> \<not> sublist ''template'' k"
    by auto
  have "(''evoformer.w'', 1) \<in> set (sd_params loaded)"
    and "(''heads.b'', 3) \<in> set (sd_params loaded)"
    and "(''template_embedder.w'', 2) \<notin> set (sd_params loaded)"
    and "(''extra.template_proj'', 4) \<notin> set (sd_params loaded)"
    unfolding iff str_contains_sublist[symmetric] by (simp_all add: example_ema_def)
  with l have first: "\<exists>loaded. on_load_checkpoint Pair example_ema ?off = (loaded, ?off) \<and>
              (''evoformer.w'', 1) \<in> set (sd_params loaded) \<and>
              (''heads.b'', 3) \<in> set (sd_params loaded) \<and>
              (''template_embedder.w'', 2) \<notin> set (sd_params loaded) \<and>
              (''extra.template_proj'', 4) \<notin> set (sd_params loaded)"
    by blast
  from on_load_checkpoint_filters[of Pair example_ema example_wrapper] on
  have "on_load_checkpoint Pair example_ema example_wrapper = (example_ema, example_wrapper)"
    by auto
  with first show ?thesis by blast
qed

subsection \<open>Start-up\<close>

text \<open>
  C8. When the precision is 16 and a DeepSpeed configuration is given, the script body
  ends with a \<^verbatim>\<open>ValueError\<close> and \<^verbatim>\<open>main\<close> is not entered, so no training step runs.
  Without this combination the check lets the run through: if the check of the seed
  passes too, the script body is \<^verbatim>\<open>main\<close>.
\<close>

theorem fp16_with_deepspeed_is_refused:
  "(precision_is_16 (precision a) \<and> deepspeed_config_path a \<noteq> None \<longrightarrow>
      (\<exists>msg. script_body env a = Inl (ValueError msg))) \<and>
   (\<not> (precision_is_16 (precision a) \<and> deepspeed_config_path a \<noteq> None) \<and> \<not> seed_missing a \<longrightarrow>
      script_body env a = main env a)"
  by (auto simp: script_body_def)

theorem fp16_with_deepspeed_is_refused_witness:
  "script_body example_env
     (example_args\<lparr> precision := PrecisionInt 16, deepspeed_config_path := Some ''ds.json'' \<rparr>)
     = Inl (ValueError ''DeepSpeed and FP16 training are not compatible'') \<and>
   script_body example_env (example_args\<lparr> deepspeed_config_path := Some ''ds.json'' \<rparr>)
     = main example_env (example_args\<lparr> deepspeed_config_path := Some ''ds.json'' \<rparr>)"
proof -
  let ?bad = "example_args\<lparr> precision := PrecisionInt 16, deepspeed_config_path := Some ''ds.json'' \<rparr>"
  let ?good = "example_args\<lparr> deepspeed_config_path := Some ''ds.json'' \<rparr>"
  have "precision_is_16 (precision ?bad) \<and> deepspeed_config_path ?bad \<noteq> None"
    by (simp add: precision_is_16_def)
  with fp16_with_deepspeed_is_refused[of ?bad example_env]
  obtain msg where "script_body example_env ?bad = Inl (ValueError msg)" by blast
  moreover have "script_body example_env ?bad \<noteq> Inl (ValueError msg)"
    if "msg \<noteq> ''DeepSpeed and FP16 training are not compatible''"
    using that by (simp add: script_body_def seed_missing_def example_args_def precision_is_16_def)
  ultimately have bad: "script_body example_env ?bad
                          = Inl (ValueError ''DeepSpeed and FP16 training are not compatible'')"
    by blast
  have "\<not> (precision_is_16 (precision ?good) \<and> deepspeed_config_path ?good \<noteq> None) \<and>
        \<not> seed_missing ?good"
    by (simp add: precision_is_16_def seed_missing_def example_args_def)
  with fp16_with_deepspeed_is_refused[of ?good example_env]
  have "script_body example_env ?good = main example_env ?good" by blast
  with bad show ?thesis by blast
qed

subsection \<open>JAX parameters\<close>

lemma path_is_unbound: "\<not> name_bound ''path''"
  by (simp add: name_bound_def load_jax_locals_def module_globals_def)

lemma load_jax_params_into_model_Inl:
  "\<exists>e. load_jax_params_into_model env param_path model_arg store = Inl e"
  by (simp add: load_jax_params_into_model_def path_is_unbound split: sum.splits)

text \<open>
  C9. \<^verbatim>\<open>load_jax_params_into_model\<close> never returns: whatever its arguments and whatever
  the routines it calls do, it raises; when those routines return, the exception is the
  \<^verbatim>\<open>NameError\<close> for \<^verbatim>\<open>path\<close>. So a run with a JAX parameter path ends in \<^verbatim>\<open>main\<close>
  with an exception. (The call site passes the model for \<^verbatim>\<open>param_path\<close> and the path
  for \<^verbatim>\<open>model\<close>: see \<open>main_init_module\<close>.)
\<close>

theorem load_jax_params_raises:
  "(\<exists>e. load_jax_params_into_model env param_path model_arg store = Inl e) \<and>
   (\<forall>b store'. get_model_basename env param_path = Inr b \<and>
        import_jax_weights env model_arg param_path
          (str_join ''_'' (drop 1 (str_split CHR ''_'' b))) store = Inr store' \<longrightarrow>
        load_jax_params_into_model env param_path model_arg store = Inl (NameError ''path'')) \<and>
   (jax_param_path a \<noteq> None \<longrightarrow> (\<exists>e. main env a = Inl e) \<and> (\<exists>e. script_body env a = Inl e))"
proof -
  have name: "load_jax_params_into_model env param_path model_arg store = Inl (NameError ''path'')"
    if "get_model_basename env param_path = Inr b"
      and "import_jax_weights env model_arg param_path
             (str_join ''_'' (drop 1 (str_split CHR ''_'' b))) store = Inr store'" for b store'
    using that by (simp add: load_jax_params_into_model_def path_is_unbound)
  have run: "\<exists>e. main env a = Inl e" if "jax_param_path a \<noteq> None"
  proof -
    from that obtain p where p: "jax_param_path a = Some p" by auto
    from load_jax_params_into_model_Inl obtain e where
      "load_jax_params_into_model env (DynModule (init_model env)) (DynPath p) (init_tensors env) = Inl e"
      by blast
    then have "main_init_module env a = Inl e"
      by (simp add: main_init_module_def p OpenFoldWrapper_init_def)
    then show ?thesis by (simp add: main_def)
  qed
  have script: "\<exists>e. script_body env a = Inl e" if "jax_param_path a \<noteq> None"
    using run[OF that] by (auto simp: script_body_def)
  from load_jax_params_into_model_Inl name run script show ?thesis by blast
qed

theorem load_jax_params_raises_witness:
  "load_jax_params_into_model example_env (DynPath ''params_model_1.npz'')
     (DynModule [(''w'', 0), (''b'', 1)]) [10, 20, 1, 2] = Inl (NameError ''path'') \<and>
   (\<exists>e. main example_env (example_args\<lparr> jax_param_path := Some ''params_model_1.npz'' \<rparr>) = Inl e)"
proof -
  let ?a = "example_args\<lparr> jax_param_path := Some ''params_model_1.npz'' \<rparr>"
  note inst = load_jax_params_raises[of example_env "DynPath ''params_model_1.npz''"
      "DynModule [(''w'', 0), (''b'', 1)]" "[10, 20, 1, 2]" ?a]
  have base: "get_model_basename example_env (DynPath ''params_model_1.npz'') = Inr ''params_model_1''"
    by (simp add: example_env_def)
  have imp: "import_jax_weights example_env (DynModule [(''w'', 0), (''b'', 1)])
               (DynPath ''params_model_1.npz'')
               (str_join ''_'' (drop 1 (str_split CHR ''_'' ''params_model_1''))) [10, 20, 1, 2]
             = Inr [10, 20, 1, 2]"
    by (simp add: example_env_def)
  have given: "jax_param_path ?a \<noteq> None" by simp
  from inst base imp given show ?thesis by blast
qed

subsection \<open>Resuming from a checkpoint\<close>

text \<open>
  C6. In a run that resumes in full (no JAX parameter path, so that the branch is
  reached; a checkpoint path that is not empty; not weights only), the step recovered is
  what \<^verbatim>\<open>get_global_step_from_zero_checkpoint\<close> returns when the path is a directory,
  and the integer of the entry \<^verbatim>\<open>global_step\<close> of the loaded file otherwise; \<^verbatim>\<open>main\<close>
  records it as \<^verbatim>\<open>last_lr_step\<close> of the wrapper it hands to the trainer, together with
  the checkpoint path.
\<close>

theorem full_resume_records_global_step:
  assumes "jax_param_path a = None" and "resume_from_ckpt a = Some path" and "path \<noteq> []"
    and "\<not> resume_model_weights_only a"
    and "(os_path_isdir env path \<and> get_global_step_from_zero_checkpoint env path = Inr n) \<or>
         (\<not> os_path_isdir env path \<and> torch_load env path = Inr sd \<and>
          map_of sd ''global_step'' = Some x \<and> py_int env x = Inr n)"
  shows "recover_global_step env path = Inr n \<and>
         main env a = Inr \<lparr> fit_model_module = (new_module env)\<lparr> last_lr_step := n \<rparr>,
                             fit_ckpt_path = Some path \<rparr>"
proof -
  from assms(5) have step: "recover_global_step env path = Inr n"
    by (auto simp: recover_global_step_def dict_get_def)
  then have "main_init_module env a = Inr (resume_last_lr_step n (new_module env))"
    using assms(1-4) by (simp add: main_init_module_def)
  then have "main env a = Inr \<lparr> fit_model_module = resume_last_lr_step n (new_module env),
                                 fit_ckpt_path = Some path \<rparr>"
    using assms(2-4) by (simp add: main_def)
  with step show ?thesis by (simp add: resume_last_lr_step_def)
qed

theorem full_resume_records_global_step_witness:
  "main example_env (example_args\<lparr> resume_from_ckpt := Some ''ckpt_dir'' \<rparr>) =
     Inr \<lparr> fit_model_module = example_wrapper\<lparr> last_lr_step := 800 \<rparr>,
           fit_ckpt_path = Some ''ckpt_dir'' \<rparr> \<and>
   main example_env (example_args\<lparr> resume_from_ckpt := Some ''last.ckpt'' \<rparr>) =
     Inr \<lparr> fit_model_module = example_wrapper\<lparr> last_lr_step := 1200 \<rparr>,
           fit_ckpt_path = Some ''last.ckpt'' \<rparr>"
proof -
  have new: "new_module example_env = example_wrapper"
    by (simp add: example_env_def example_wrapper_def)
  have dir: "main example_env (example_args\<lparr> resume_from_ckpt := Some ''ckpt_dir'' \<rparr>) =
     Inr \<lparr> fit_model_module = (new_module example_env)\<lparr> last_lr_step := 800 \<rparr>,
           fit_ckpt_path = Some ''ckpt_dir'' \<rparr>"
    using full_resume_records_global_step
      [of "example_args\<lparr> resume_from_ckpt := Some ''ckpt_dir'' \<rparr>" "''ckpt_dir''" example_env 800]
    by (simp add: example_args_def example_env_def)
  have single: "main example_env (example_args\<lparr> resume_from_ckpt := Some ''last.ckpt'' \<rparr>) =
     Inr \<lparr> fit_model_module = (new_module example_env)\<lparr> last_lr_step := 1200 \<rparr>,
           fit_ckpt_path = Some ''last.ckpt'' \<rparr>"
    using full_resume_records_global_step
      [of "example_args\<lparr> resume_from_ckpt := Some ''last.ckpt'' \<rparr>" "''last.ckpt''" example_env 1200
          "[(''global_step'', PyInt 1200), (''state_dict'', PyObj 0)]" "PyInt 1200"]
    by (simp add: example_args_def example_env_def py_int_def)
  from dir single show ?thesis unfolding new by simp
qed

text \<open>
  C7. In a run that loads weights only (no JAX parameter path, so that the block is
  reached; a checkpoint path that is not empty), the weights come from
  \<^verbatim>\<open>get_fp32_state_dict_from_zero_checkpoint\<close> when the path is a directory and from
  \<^verbatim>\<open>torch.load\<close> otherwise; what \<^verbatim>\<open>load_state_dict\<close> of the wrapper receives has, entry
  by entry, the key prefixed with \<^verbatim>\<open>model.\<close> and the value unchanged.
\<close>

theorem weights_only_load_prefixes_keys:
  assumes "jax_param_path a = None" and "resume_from_ckpt a = Some path" and "path \<noteq> []"
    and "resume_model_weights_only a"
    and "(if os_path_isdir env path then get_fp32_state_dict_from_zero_checkpoint env path
          else torch_load env path) = Inr sd"
  shows "\<exists>loaded.
           map fst loaded = map (\<lambda>k. ''model.'' @ k) (map fst sd) \<and>
           map snd loaded = map snd sd \<and>
           main env a =
             (case module_load_state_dict env loaded (new_module env) of
                Inl e \<Rightarrow> Inl e
              | Inr store \<Rightarrow> Inr \<lparr> fit_model_module = (new_module env)\<lparr> tensors := store \<rparr>,
                                    fit_ckpt_path = None \<rparr>)"
proof -
  let ?loaded = "map (\<lambda>(k, v). (''model.'' @ k, v)) sd"
  have init: "main_init_module env a = Inr (new_module env)"
    using assms(1-4) by (simp add: main_init_module_def)
  have "main env a =
          (case module_load_state_dict env ?loaded (new_module env) of
             Inl e \<Rightarrow> Inl e
           | Inr store \<Rightarrow> Inr \<lparr> fit_model_module = (new_module env)\<lparr> tensors := store \<rparr>,
                                 fit_ckpt_path = None \<rparr>)"
    using assms(2-5) by (simp add: main_def init load_model_weights_def split: sum.splits)
  moreover have "map fst ?loaded = map (\<lambda>k. ''model.'' @ k) (map fst sd)"
    by (induction sd) auto
  moreover have "map snd ?loaded = map snd sd"
    by (induction sd) auto
  ultimately show ?thesis by blast
qed

theorem weights_only_load_prefixes_keys_witness:
  "\<exists>loaded.
     map fst loaded = [''model.w'', ''model.b''] \<and> map snd loaded = [PyObj 7, PyObj 8] \<and>
     main example_env
       (example_args\<lparr> resume_from_ckpt := Some ''weights.pt'', resume_model_weights_only := True \<rparr>) =
       (case module_load_state_dict example_env loaded (new_module example_env) of
          Inl e \<Rightarrow> Inl e
        | Inr store \<Rightarrow> Inr \<lparr> fit_model_module = (new_module example_env)\<lparr> tensors := store \<rparr>,
                              fit_ckpt_path = None \<rparr>)"
  using weights_only_load_prefixes_keys
    [of "example_args\<lparr> resume_from_ckpt := Some ''weights.pt'', resume_model_weights_only := True \<rparr>"
        "''weights.pt''" example_env "[(''w'', PyObj 7), (''b'', PyObj 8)]"]
  by (simp add: example_args_def example_env_def)

text \<open>
  C10. In a run with a checkpoint path (not empty) and the weights-only flag, whenever
  \<^verbatim>\<open>main\<close> reaches \<^verbatim>\<open>trainer.fit\<close> the wrapper still has \<^verbatim>\<open>last_lr_step\<close> at the
  sentinel \<open>- 1\<close>, the trainer gets no checkpoint path, and the scheduler that
  \<^verbatim>\<open>configure_optimizers\<close> builds yields at its first step the multiplier of step 0.
  And \<^verbatim>\<open>main\<close> does reach it when no JAX parameter path is given and the weights load.
\<close>

theorem weights_only_resume_records_no_step:
  assumes "resume_from_ckpt a = Some path" and "path \<noteq> []" and "resume_model_weights_only a"
  shows "(\<forall>call. main env a = Inr call \<longrightarrow>
            last_lr_step (fit_model_module call) = - 1 \<and> fit_ckpt_path call = None \<and>
            fst (scheduler_step lr
                   (scheduler (configure_optimizers (fit_model_module call) learning_rate eps))) = lr 0) \<and>
         (jax_param_path a = None \<longrightarrow>
            (\<forall>w. load_model_weights env path (new_module env) = Inr w \<longrightarrow>
                 main env a = Inr \<lparr> fit_model_module = w, fit_ckpt_path = None \<rparr>))"
proof -
  have init: "last_lr_step w = - 1" if "main_init_module env a = Inr w" for w
  proof (cases "jax_param_path a")
    case None
    with that assms show ?thesis
      by (auto simp: main_init_module_def OpenFoldWrapper_init_def)
  next
    case (Some p)
    from load_jax_params_into_model_Inl obtain e where
      "load_jax_params_into_model env (DynModule (init_model env)) (DynPath p)
         (init_tensors env) = Inl e"
      by blast
    with that Some show ?thesis
      by (auto simp: main_init_module_def OpenFoldWrapper_init_def)
  qed
  have load: "last_lr_step w' = last_lr_step w" if "load_model_weights env path w = Inr w'" for w w'
    using that by (auto simp: load_model_weights_def split: sum.splits)
  have first: "last_lr_step (fit_model_module call) = - 1 \<and> fit_ckpt_path call = None"
    if "main env a = Inr call" for call
    using that assms init load by (auto simp: main_def split: sum.splits)
  have fresh: "fst (scheduler_step lr (scheduler (configure_optimizers w learning_rate eps))) = lr 0"
    for w :: "'a OpenFoldWrapper"
    by (simp add: configure_optimizers_scheduler scheduler_step_def)
  have second: "main env a = Inr \<lparr> fit_model_module = w, fit_ckpt_path = None \<rparr>"
    if "jax_param_path a = None" and "load_model_weights env path (new_module env) = Inr w" for w
    using that assms by (simp add: main_def main_init_module_def)
  from first fresh second show ?thesis by blast
qed

theorem weights_only_resume_records_no_step_witness:
  "main example_env
     (example_args\<lparr> resume_from_ckpt := Some ''weights.pt'', resume_model_weights_only := True \<rparr>) =
     Inr \<lparr> fit_model_module = example_wrapper\<lparr> tensors := [7, 8, 1, 2] \<rparr>, fit_ckpt_path = None \<rparr> \<and>
   last_lr_step (example_wrapper\<lparr> tensors := [7, 8, 1, 2] \<rparr>) = - 1 \<and>
   fst (scheduler_step example_schedule
          (scheduler (configure_optimizers (example_wrapper\<lparr> tensors := [7, 8, 1, 2] \<rparr>)
                        (1 / 1000) (1 / 100000)))) = example_schedule 0"
proof -
  let ?a = "example_args\<lparr> resume_from_ckpt := Some ''weights.pt'', resume_model_weights_only := True \<rparr>"
  let ?w = "example_wrapper\<lparr> tensors := [7 :: int, 8, 1, 2] \<rparr>"
  note inst = weights_only_resume_records_no_step
    [of ?a "''weights.pt''" example_env example_schedule "1 / 1000" "1 / 100000"]
  have a: "resume_from_ckpt ?a = Some ''weights.pt''" "''weights.pt'' \<noteq> []"
    "resume_model_weights_only ?a" "jax_param_path ?a = None"
    by (simp_all add: example_args_def)
  have loaded: "load_model_weights example_env ''weights.pt'' (new_module example_env) = Inr ?w"
    by (simp add: load_model_weights_def example_env_def example_wrapper_def OpenFoldWrapper_init_def)
  from inst[OF a(1-3)] a(4) loaded
  have run: "main example_env ?a = Inr \<lparr> fit_model_module = ?w, fit_ckpt_path = None \<rparr>"
    by blast
  with inst[OF a(1-3)]
  have "last_lr_step ?w = - 1 \<and>
        fst (scheduler_step example_schedule
               (scheduler (configure_optimizers ?w (1 / 1000) (1 / 100000)))) = example_schedule 0"
    by force
  with run show ?thesis by simp
qed

end
